theory Spec2Isabelle
  imports Main "HOL-Library.Word"
begin

section \<open>Data model of \<open>NativeCore/Windows/ReadRemoteMemory.cpp\<close>\<close>

text \<open>
  The file exports one function, \<open>ReadRemoteMemory\<close>. Its arguments are three
  pointers (\<open>RC_Pointer\<close>, a \<open>void *\<close>) and two \<open>int\<close>s. Pointers, \<open>uintptr_t\<close>
  and \<open>SIZE_T\<close> are machine words of the platform's width, written \<open>'w word\<close>
  (\<open>'w\<close> is 32 on x86 and 64 on x64); \<open>int\<close>, \<open>BOOL\<close> and \<open>NTSTATUS\<close> are 32-bit
  words. A C++ conversion of a signed \<open>int\<close> to an unsigned type of the same or a
  larger width keeps the value modulo \<open>2 ^ w\<close>, which is \<open>scast\<close>.

  The function calls two external procedures: \<open>ReadProcessMemory\<close> of the operating
  system and the member \<open>RWVM\<close> of the object \<open>ByPass\<close> points to. Both are parameters
  of the model. An external procedure receives its arguments, the content of the cell
  \<open>numberOfBytesRead\<close> it is given the address of, and the state of the world outside
  the function (of an arbitrary type \<open>'s\<close>); it returns its result, the new content
  of the cell and the new state of the world. \<open>ReadProcessMemory\<close> takes its byte
  count as a \<open>SIZE_T\<close>; the declaration of \<open>RWVM\<close> is not in the sources, and its byte
  count is taken to be a \<open>SIZE_T\<close> as well, like the cell it fills.
\<close>

type_synonym int32 = "32 word"
type_synonym BOOL = "32 word"
type_synonym NTSTATUS = "32 word"
type_synonym byte = "8 word"

type_synonym ('w, 's) read_process_memory =
  "'w word \<Rightarrow> 'w word \<Rightarrow> 'w word \<Rightarrow> 'w word \<Rightarrow> 'w word \<Rightarrow> 's \<Rightarrow> BOOL \<times> 'w word \<times> 's"

type_synonym ('w, 's) rwvm =
  "'w word \<Rightarrow> 'w word \<Rightarrow> 'w word \<Rightarrow> 'w word \<Rightarrow> 'w word \<Rightarrow> 's \<Rightarrow> NTSTATUS \<times> 'w word \<times> 's"

text \<open>The object behind the global pointer \<open>ByPass\<close>: the two members the function uses.\<close>

record (overloaded) ('w, 's) BypaPH =
  m_hTarget :: "'w word"
  RWVM :: "('w, 's) rwvm"

text \<open>
  Modelled from the spec: the constant \<open>STATUS_SUCCESS\<close> comes from the platform
  headers, which are not part of the sources; the specification gives the status code as
  a signed code whose zero value means success.
\<close>

definition STATUS_SUCCESS :: NTSTATUS where
  "STATUS_SUCCESS = 0"

text \<open>
  The calls the function makes to external procedures are recorded, in the order in which
  they are made, with the arguments passed: process handle or target identifier, remote
  address, local destination and byte count. The type \<open>'p\<close> of a recorded argument is the
  pointer-sized word \<open>'w word\<close>.
\<close>

datatype 'p call =
  DirectCall (target: 'p) (remote: 'p) (destination: 'p) (count: 'p)
| BypassCall (target: 'p) (remote: 'p) (destination: 'p) (count: 'p)

record ('p, 's) state =
  world :: 's
  trace :: "'p call list"

text \<open>The calls made between the state \<open>st\<close> and the later state \<open>st'\<close>.\<close>

definition invoked :: "('p, 's) state \<Rightarrow> ('p, 's) state \<Rightarrow> 'p call list" where
  "invoked st st' = drop (length (trace st)) (trace st')"

definition call_ReadProcessMemory ::
  "('w::len, 's) read_process_memory \<Rightarrow> 'w word \<Rightarrow> 'w word \<Rightarrow> 'w word \<Rightarrow> 'w word \<Rightarrow> 'w word
     \<Rightarrow> ('w word, 's) state \<Rightarrow> BOOL \<times> 'w word \<times> ('w word, 's) state" where
  "call_ReadProcessMemory RPM hProcess lpBaseAddress lpBuffer nSize cell st =
     (case RPM hProcess lpBaseAddress lpBuffer nSize cell (world st) of
        (ok, cell', w') \<Rightarrow>
          (ok, cell',
           \<lparr>world = w', trace = trace st @ [DirectCall hProcess lpBaseAddress lpBuffer nSize]\<rparr>))"

definition call_RWVM ::
  "('w::len, 's) BypaPH \<Rightarrow> 'w word \<Rightarrow> 'w word \<Rightarrow> 'w word \<Rightarrow> 'w word \<Rightarrow> 'w word
     \<Rightarrow> ('w word, 's) state \<Rightarrow> NTSTATUS \<times> 'w word \<times> ('w word, 's) state" where
  "call_RWVM bp hTarget address buffer nSize cell st =
     (case RWVM bp hTarget address buffer nSize cell (world st) of
        (status, cell', w') \<Rightarrow>
          (status, cell',
           \<lparr>world = w', trace = trace st @ [BypassCall hTarget address buffer nSize]\<rparr>))"

section \<open>The function\<close>

text \<open>
  \<^verbatim>\<open>
  bool ReadRemoteMemory(RC_Pointer handle, RC_Pointer address, RC_Pointer buffer,
                        int offset, int size)
  {
      buffer = reinterpret_cast<RC_Pointer>(reinterpret_cast<uintptr_t>(buffer) + offset);
      SIZE_T numberOfBytesRead = 0;
      if (!UseKernal)
      {
          if (ReadProcessMemory(handle, address, buffer, size, &numberOfBytesRead)
              && size == numberOfBytesRead)
              return true;
      }
      else if (ByPass != nullptr)
      {
          NTSTATUS read = ByPass->RWVM(ByPass->m_hTarget, address, buffer, size,
                                       &numberOfBytesRead);
          if (read == STATUS_SUCCESS && size == numberOfBytesRead)
              return true;
      }
      return false;
  }
  \<close>
  The globals \<open>UseKernal\<close> and \<open>ByPass\<close> are arguments of the model; a null \<open>ByPass\<close> is
  \<open>None\<close>. The function returns its boolean and the state after the call. The parameter
  \<open>size\<close> is written \<open>size'\<close>, since \<open>size\<close> is a constant of HOL.
\<close>

definition ReadRemoteMemory ::
  "('w::len, 's) read_process_memory \<Rightarrow> bool \<Rightarrow> ('w, 's) BypaPH option
     \<Rightarrow> 'w word \<Rightarrow> 'w word \<Rightarrow> 'w word \<Rightarrow> int32 \<Rightarrow> int32
     \<Rightarrow> ('w word, 's) state \<Rightarrow> bool \<times> ('w word, 's) state" where
  "ReadRemoteMemory RPM UseKernal ByPass handle address buffer offset size' st =
     (let buffer = buffer + scast offset;
          numberOfBytesRead = 0
      in if \<not> UseKernal then
           (case call_ReadProcessMemory RPM handle address buffer (scast size')
                   numberOfBytesRead st of
              (ok, numberOfBytesRead, st) \<Rightarrow>
                if ok \<noteq> 0 \<and> scast size' = numberOfBytesRead then (True, st)
                else (False, st))
         else
           (case ByPass of
              Some bp \<Rightarrow>
                (case call_RWVM bp (m_hTarget bp) address buffer (scast size')
                        numberOfBytesRead st of
                   (read, numberOfBytesRead, st) \<Rightarrow>
                     if read = STATUS_SUCCESS \<and> scast size' = numberOfBytesRead then (True, st)
                     else (False, st))
            | None \<Rightarrow> (False, st)))"

section \<open>Memory as byte maps\<close>

text \<open>
  For the claims about the bytes a call writes, the world is the memory of the calling
  process (\<open>local_mem\<close>, a byte for every address) and the memory of the other processes
  (\<open>remote_mem\<close>, indexed by the process handle or target identifier the transport is
  given, then by address).
\<close>

record (overloaded) 'w memory_world =
  remote_mem :: "'w word \<Rightarrow> 'w word \<Rightarrow> byte"
  local_mem :: "'w word \<Rightarrow> byte"

text \<open>
  The address \<open>x\<close> lies among the \<open>k\<close> addresses \<open>dst\<close>, \<open>dst + 1\<close>, ... counted
  with wrap-around at the end of the address space.
\<close>

definition in_range :: "'w::len word \<Rightarrow> nat \<Rightarrow> 'w word \<Rightarrow> bool" where
  "in_range dst k x \<longleftrightarrow> unat (x - dst) < k"

text \<open>
  Modelled from the spec: the two transports are external (the operating system's
  \<open>ReadProcessMemory\<close> and the \<open>RWVM\<close> member of the bypass object), and neither is part
  of the sources. The specification describes each as a read primitive called with a
  target, a remote address, a local address and a size, which gives back the count of bytes
  actually transferred and may have written only a prefix of the destination. As a
  function on byte maps: whatever its result, the transport has copied the first
  \<open>transferred\<close> bytes of the remote range to the local range and has written no other
  byte of the local memory.
\<close>

definition copies_transferred ::
  "('w::len word \<Rightarrow> 'w word \<Rightarrow> 'w word \<Rightarrow> 'w word \<Rightarrow> 'w word \<Rightarrow> 'w memory_world
      \<Rightarrow> 32 word \<times> 'w word \<times> 'w memory_world) \<Rightarrow> bool" where
  "copies_transferred T \<longleftrightarrow>
     (\<forall>tgt a d n cell w.
        case T tgt a d n cell w of
          (r, transferred, w') \<Rightarrow>
            (\<forall>i<unat transferred. local_mem w' (d + of_nat i) = remote_mem w tgt (a + of_nat i)) \<and>
            (\<forall>x. \<not> in_range d (unat transferred) x \<longrightarrow> local_mem w' x = local_mem w x))"

text \<open>
  The process a call reads from: the one behind \<open>handle\<close> in direct mode, the bypass
  object's own target in bypass mode, none when the bypass object is missing.
\<close>

definition read_target :: "bool \<Rightarrow> ('w::len, 's) BypaPH option \<Rightarrow> 'w word \<Rightarrow> 'w word option" where
  "read_target UseKernal ByPass handle =
     (if \<not> UseKernal then Some handle else map_option m_hTarget ByPass)"

section \<open>Stub transports used to run the function on concrete inputs\<close>

text \<open>A transport that leaves the world alone and answers with a fixed result and count.\<close>

definition stub_transport :: "32 word \<Rightarrow> 'w word \<Rightarrow>
    'w word \<Rightarrow> 'w word \<Rightarrow> 'w word \<Rightarrow> 'w word \<Rightarrow> 'w word \<Rightarrow> 's \<Rightarrow> 32 word \<times> 'w word \<times> 's" where
  "stub_transport r n h a d k cell w = (r, n, w)"

definition stub_bypass :: "'w word \<Rightarrow> 32 word \<Rightarrow> 'w word \<Rightarrow> ('w, 's) BypaPH" where
  "stub_bypass t r n = \<lparr>m_hTarget = t, RWVM = stub_transport r n\<rparr>"

definition st0 :: "(64 word, unit) state" where
  "st0 = \<lparr>world = (), trace = []\<rparr>"

text \<open>
  A transport on byte maps: it answers \<open>r\<close> and copies the requested bytes, but at most
  \<open>avail\<close> of them (a short read when \<open>avail\<close> is less than the size asked for).
\<close>

definition copy_transport :: "32 word \<Rightarrow> 'w::len word \<Rightarrow>
    'w word \<Rightarrow> 'w word \<Rightarrow> 'w word \<Rightarrow> 'w word \<Rightarrow> 'w word \<Rightarrow> 'w memory_world
      \<Rightarrow> 32 word \<times> 'w word \<times> 'w memory_world" where
  "copy_transport r avail tgt a d n cell w =
     (let k = min n avail
      in (r, k,
          w\<lparr>local_mem := (\<lambda>x. if x - d < k then remote_mem w tgt (a + (x - d))
                                else local_mem w x)\<rparr>))"

definition copy_bypass :: "'w::len word \<Rightarrow> 32 word \<Rightarrow> 'w word \<Rightarrow> ('w, 'w memory_world) BypaPH" where
  "copy_bypass t r avail = \<lparr>m_hTarget = t, RWVM = copy_transport r avail\<rparr>"

text \<open>
  A world in which the byte at address \<open>a\<close> of process \<open>p\<close> is the low byte of
  \<open>p + a\<close> and the caller's memory is all zero.
\<close>

definition mem0 :: "(64 word, 64 memory_world) state" where
  "mem0 = \<lparr>world = \<lparr>remote_mem = (\<lambda>p a. ucast (p + a)), local_mem = (\<lambda>x. 0)\<rparr>, trace = []\<rparr>"

section \<open>Shape of a call\<close>

lemma ReadRemoteMemory_direct:
  "ReadRemoteMemory RPM False ByPass handle address buffer offset size' st =
     (case RPM handle address (buffer + scast offset) (scast size') 0 (world st) of
        (ok, n, w') \<Rightarrow>
          (ok \<noteq> 0 \<and> scast size' = n,
           \<lparr>world = w',
            trace = trace st @ [DirectCall handle address (buffer + scast offset) (scast size')]\<rparr>))"
  by (simp add: ReadRemoteMemory_def call_ReadProcessMemory_def Let_def split: prod.splits)

lemma ReadRemoteMemory_bypass:
  "ReadRemoteMemory RPM True (Some bp) handle address buffer offset size' st =
     (case RWVM bp (m_hTarget bp) address (buffer + scast offset) (scast size') 0 (world st) of
        (status, n, w') \<Rightarrow>
          (status = 0 \<and> scast size' = n,
           \<lparr>world = w',
            trace = trace st @
              [BypassCall (m_hTarget bp) address (buffer + scast offset) (scast size')]\<rparr>))"
  by (simp add: ReadRemoteMemory_def call_RWVM_def STATUS_SUCCESS_def Let_def split: prod.splits)

section \<open>Conversions of the \<open>int\<close> arguments and address ranges\<close>

lemma uint_scast: "uint (scast (s :: 32 word) :: 'w::len word) = sint s mod 2 ^ LENGTH('w)"
  unfolding scast_eq by (rule uint_word_of_int)

lemma scast_eq_iff: "(scast (s :: 32 word) :: 'w::len word) = n \<longleftrightarrow> uint n = sint s mod 2 ^ LENGTH('w)"
proof -
  have "scast s = n \<longleftrightarrow> uint (scast s :: 'w word) = uint n" by (simp only: word_uint_eq_iff)
  then show ?thesis by (simp only: uint_scast eq_commute)
qed

lemma uint_plus_scast: "uint ((b :: 'w::len word) + scast (off :: 32 word)) = (uint b + sint off) mod 2 ^ LENGTH('w)"
proof -
  have "uint (b + scast off) = (uint b + uint (scast off :: 'w word)) mod 2 ^ LENGTH('w)"
    by (rule uint_word_ariths)
  then show ?thesis by (simp only: uint_scast mod_add_right_eq)
qed

lemma in_range_iff: "in_range (d :: 'w::len word) k x \<longleftrightarrow> (\<exists>i<k. x = d + of_nat i)"
proof
  assume "in_range d k x"
  then have "unat (x - d) < k" by (simp add: in_range_def)
  moreover have "x = d + of_nat (unat (x - d))" by simp
  ultimately show "\<exists>i<k. x = d + of_nat i" by blast
next
  assume "\<exists>i<k. x = d + of_nat i"
  then obtain i where i: "i < k" "x = d + of_nat i" by blast
  have "unat (x - d) = i mod 2 ^ LENGTH('w)" using i(2) by (simp add: unat_of_nat)
  also have "\<dots> \<le> i" by simp
  finally show "in_range d k x" using i(1) by (simp add: in_range_def)
qed

lemma unat_scast_nonneg:
  assumes "0 \<le> sint (s :: 32 word)" and "32 \<le> LENGTH('w::len)"
  shows "unat (scast s :: 'w word) = nat (sint s)"
proof -
  have "sint s < 2 ^ 31" using sint_lt [of s] by simp
  also have "(2::int) ^ 31 \<le> 2 ^ LENGTH('w)" using assms(2) by (intro power_increasing) auto
  finally have "sint s mod 2 ^ LENGTH('w) = sint s" using assms(1) by simp
  then have "uint (scast s :: 'w word) = sint s" by (simp only: uint_scast)
  then show ?thesis by (simp only: unat_eq_nat_uint)
qed

lemma copy_transport_copies:
  "copies_transferred (copy_transport r (avail :: 'w::len word))"
proof -
  have a: "local_mem (snd (snd (copy_transport r avail tgt a d n cell w))) (d + of_nat i)
        = remote_mem w tgt (a + of_nat i)" if "i < unat (min n avail)" for tgt a d n cell w i
  proof -
    have "unat (min n avail) < (2::nat) ^ LENGTH('w)" by simp
    with that have "i < 2 ^ LENGTH('w)" by (rule less_trans)
    then have "unat (of_nat i :: 'w word) = i"
      by (simp add: unat_of_nat)
    then have "(of_nat i :: 'w word) < min n avail" using that by (simp add: word_less_nat_alt)
    then show ?thesis by (simp add: copy_transport_def Let_def)
  qed
  have b: "local_mem (snd (snd (copy_transport r avail tgt a d n cell w))) x = local_mem w x"
    if "\<not> in_range d (unat (min n avail)) x" for tgt a d n cell w x
    using that by (simp add: copy_transport_def Let_def in_range_def word_less_nat_alt)
  have c: "fst (snd (copy_transport r avail tgt a d n cell w)) = min n avail" for tgt a d n cell w
    by (simp add: copy_transport_def Let_def)
  show ?thesis
    unfolding copies_transferred_def
    apply (intro allI)
    subgoal for tgt a d n cell w
      using a [of _ n tgt a d cell w] b [of d n x tgt a cell w for x] c [of tgt a d n cell w]
      by (cases "copy_transport r avail tgt a d n cell w") auto
    done
qed

section \<open>Result of a call\<close>

text \<open>
  C1. In direct mode (\<open>UseKernal\<close> false) the function returns true if and only if
  \<open>ReadProcessMemory\<close>, called with the handle, the address, the destination and the
  size, reports success (a non-zero \<open>BOOL\<close>) and the count of bytes it transferred equals
  the size. A failure of the primitive, or a success with a different count, gives false.
\<close>

theorem direct_success_iff:
  assumes "RPM handle address (buffer + scast offset) (scast size') 0 (world st)
             = (ok, transferred, w')"
  shows "fst (ReadRemoteMemory RPM False ByPass handle address buffer offset size' st)
           \<longleftrightarrow> ok \<noteq> 0 \<and> transferred = scast size'"
  using assms by (auto simp: ReadRemoteMemory_direct)

text \<open>
  Direct mode, the primitive succeeds with 15 bytes transferred of the 16 asked for: the
  call returns false.
\<close>

theorem direct_success_iff_witness:
  "stub_transport 1 15 (1 :: 64 word) 2 (3 + scast (0 :: 32 word)) (scast (16 :: 32 word)) 0
       (world st0) = (1, 15, ())
   \<and> \<not> fst (ReadRemoteMemory (stub_transport 1 15) False None 1 2 3 0 16 st0)"
proof -
  have h: "stub_transport 1 15 (1 :: 64 word) 2 (3 + scast (0 :: 32 word))
             (scast (16 :: 32 word)) 0 (world st0) = (1, 15, ())"
    by (simp add: stub_transport_def)
  show ?thesis
    using h direct_success_iff [where RPM = "stub_transport 1 15" and handle = 1 and address = 2
        and buffer = 3 and offset = 0 and size' = 16 and st = st0 and ByPass = None, OF h]
    by simp
qed

text \<open>
  C2. In bypass mode (\<open>UseKernal\<close> true) with a non-null \<open>ByPass\<close>, the function
  returns true if and only if the status \<open>RWVM\<close> returns is zero and the count of bytes it
  transferred equals the size; with a non-zero status it returns false whatever the count.
\<close>

theorem bypass_success_iff:
  assumes "RWVM bp (m_hTarget bp) address (buffer + scast offset) (scast size') 0 (world st)
             = (status, transferred, w')"
  shows "(fst (ReadRemoteMemory RPM True (Some bp) handle address buffer offset size' st)
            \<longleftrightarrow> status = 0 \<and> transferred = scast size')
         \<and> (status \<noteq> 0 \<longrightarrow>
              \<not> fst (ReadRemoteMemory RPM True (Some bp) handle address buffer offset size' st))"
  using assms by (auto simp: ReadRemoteMemory_bypass)

text \<open>
  Bypass mode, status \<open>-1073741790\<close> with all 32 bytes reported transferred: the call
  returns false.
\<close>

theorem bypass_success_iff_witness:
  "RWVM (stub_bypass 7 (- 1073741790) 32) (m_hTarget (stub_bypass 7 (- 1073741790) (32 :: 64 word)))
       2 (3 + scast (8 :: 32 word)) (scast (32 :: 32 word)) 0 (world st0)
     = (- 1073741790, 32, ())
   \<and> (- 1073741790 :: 32 word) \<noteq> 0
   \<and> \<not> fst (ReadRemoteMemory (stub_transport 1 32) True (Some (stub_bypass 7 (- 1073741790) 32))
              1 2 3 8 32 st0)"
proof -
  have h: "RWVM (stub_bypass 7 (- 1073741790) 32)
             (m_hTarget (stub_bypass 7 (- 1073741790) (32 :: 64 word)))
             2 (3 + scast (8 :: 32 word)) (scast (32 :: 32 word)) 0 (world st0)
           = (- 1073741790, 32, ())"
    by (simp add: stub_bypass_def stub_transport_def)
  have n: "(- 1073741790 :: 32 word) \<noteq> 0" by simp
  show ?thesis
    using h n bypass_success_iff [OF h, of "stub_transport 1 32" 1] by blast
qed

text \<open>
  C3. When \<open>UseKernal\<close> is true and \<open>ByPass\<close> is null, the function returns false, calls
  neither \<open>ReadProcessMemory\<close> nor \<open>RWVM\<close>, and leaves the world as it was.
\<close>

theorem null_bypass_fails_without_call:
  "ReadRemoteMemory RPM True None handle address buffer offset size' st = (False, st)
   \<and> invoked st (snd (ReadRemoteMemory RPM True None handle address buffer offset size' st)) = []"
  by (simp add: ReadRemoteMemory_def invoked_def)

section \<open>Choice of the transport\<close>

text \<open>
  C4 as stated says that every call consults exactly one transport. In bypass mode with a
  null \<open>ByPass\<close> the call consults none.
\<close>

theorem exactly_one_transport_counterexample:
  "length (invoked st0 (snd (ReadRemoteMemory (stub_transport 1 8) True None 1 2 3 0 8 st0))) \<noteq> 1"
  by (simp add: ReadRemoteMemory_def invoked_def)

text \<open>
  C4, amended. The mode flag alone chooses the transport, and a call invokes at most one:
  with \<open>UseKernal\<close> false it makes exactly one call, to \<open>ReadProcessMemory\<close>, and none to
  \<open>RWVM\<close>; with \<open>UseKernal\<close> true it makes no call to \<open>ReadProcessMemory\<close>, and exactly
  one call to \<open>RWVM\<close> when \<open>ByPass\<close> is not null, none when it is null. The calls made do
  not depend on what the transport answers, so a failed attempt is never retried through
  the other transport.
\<close>

theorem transport_chosen_by_mode_flag:
  "invoked st (snd (ReadRemoteMemory RPM UseKernal ByPass handle address buffer offset size' st)) =
     (if \<not> UseKernal then [DirectCall handle address (buffer + scast offset) (scast size')]
      else case ByPass of
             Some bp \<Rightarrow> [BypassCall (m_hTarget bp) address (buffer + scast offset) (scast size')]
           | None \<Rightarrow> [])"
proof (cases UseKernal)
  case False
  then show ?thesis
    by (simp add: ReadRemoteMemory_direct invoked_def split: prod.splits)
next
  case True
  then show ?thesis
    by (cases ByPass)
       (simp_all add: ReadRemoteMemory_bypass ReadRemoteMemory_def [of _ True None] invoked_def
          split: prod.splits)
qed

text \<open>
  Bypass mode with a failing \<open>RWVM\<close> and a \<open>ReadProcessMemory\<close> that would succeed: the
  call returns false and has made the one call to \<open>RWVM\<close>.
\<close>

theorem transport_chosen_by_mode_flag_witness:
  "\<not> fst (ReadRemoteMemory (stub_transport 1 32) True (Some (stub_bypass 7 (- 1073741790) 32))
            1 2 3 8 32 st0)
   \<and> invoked st0 (snd (ReadRemoteMemory (stub_transport 1 32) True
                         (Some (stub_bypass 7 (- 1073741790) 32)) 1 2 3 8 32 st0))
       = [BypassCall 7 2 11 32]"
proof -
  have "\<not> fst (ReadRemoteMemory (stub_transport 1 32) True
                 (Some (stub_bypass 7 (- 1073741790) (32 :: 64 word))) 1 2 3 8 32 st0)"
    by (simp add: ReadRemoteMemory_bypass stub_bypass_def stub_transport_def)
  then show ?thesis
    using transport_chosen_by_mode_flag [of st0 "stub_transport 1 32" True
        "Some (stub_bypass 7 (- 1073741790) 32)" 1 2 3 8 32]
    by (simp add: stub_bypass_def)
qed

section \<open>Bytes written by a successful call\<close>

text \<open>
  C5. Transports are functions on byte maps that copy the bytes they report as
  transferred and write nothing else. When \<open>ReadRemoteMemory\<close> returns true, the
  \<open>size\<close> bytes of the destination range starting at \<open>buffer + offset\<close> hold the contents
  of the range starting at \<open>address\<close> in the target process (the process behind \<open>handle\<close> in
  direct mode, the bypass object's own target in bypass mode), and every byte of the
  caller's memory outside that range is as it was before the call. The number of bytes is
  the size converted to \<open>SIZE_T\<close>, which is the value of \<open>size\<close> itself when it is not
  negative and the platform word has at least 32 bits.
\<close>

theorem success_overwrites_destination:
  fixes RPM :: "('w::len, 'w memory_world) read_process_memory"
  assumes direct: "copies_transferred RPM"
    and bypass: "\<forall>bp. ByPass = Some bp \<longrightarrow> copies_transferred (RWVM bp)"
    and ok: "ReadRemoteMemory RPM UseKernal ByPass handle address buffer offset size' st
               = (True, st')"
  shows "\<exists>tgt. read_target UseKernal ByPass handle = Some tgt
           \<and> (\<forall>i<unat (scast size' :: 'w word).
                 local_mem (world st') (buffer + scast offset + of_nat i)
                   = remote_mem (world st) tgt (address + of_nat i))
           \<and> (\<forall>x. \<not> in_range (buffer + scast offset) (unat (scast size' :: 'w word)) x
                 \<longrightarrow> local_mem (world st') x = local_mem (world st) x)
           \<and> (0 \<le> sint size' \<and> 32 \<le> LENGTH('w)
                 \<longrightarrow> unat (scast size' :: 'w word) = nat (sint size'))"
proof -
  let ?dst = "buffer + scast offset"
  let ?n = "scast size' :: 'w word"
  have count: "0 \<le> sint size' \<and> 32 \<le> LENGTH('w) \<longrightarrow> unat ?n = nat (sint size')"
    by (simp add: unat_scast_nonneg)
  show ?thesis
  proof (cases UseKernal)
    case False
    obtain r k w' where call: "RPM handle address ?dst ?n 0 (world st) = (r, k, w')"
      by (cases "RPM handle address ?dst ?n 0 (world st)")
    from ok False call have k: "k = ?n" and w': "world st' = w'"
      by (auto simp: ReadRemoteMemory_direct split: if_splits)
    from direct call have
      "(\<forall>i<unat k. local_mem w' (?dst + of_nat i) = remote_mem (world st) handle (address + of_nat i))
       \<and> (\<forall>x. \<not> in_range ?dst (unat k) x \<longrightarrow> local_mem w' x = local_mem (world st) x)"
      unfolding copies_transferred_def
      by (metis (mono_tags, lifting) case_prod_conv)
    with k w' count False show ?thesis by (simp add: read_target_def)
  next
    case True
    with ok obtain bp where bp: "ByPass = Some bp"
      by (cases ByPass) (auto simp: ReadRemoteMemory_def)
    obtain r k w' where call:
      "RWVM bp (m_hTarget bp) address ?dst ?n 0 (world st) = (r, k, w')"
      by (cases "RWVM bp (m_hTarget bp) address ?dst ?n 0 (world st)")
    from ok True bp call have k: "k = ?n" and w': "world st' = w'"
      by (auto simp: ReadRemoteMemory_bypass split: if_splits)
    from bypass bp have "copies_transferred (RWVM bp)" by blast
    with call have
      "(\<forall>i<unat k. local_mem w' (?dst + of_nat i)
           = remote_mem (world st) (m_hTarget bp) (address + of_nat i))
       \<and> (\<forall>x. \<not> in_range ?dst (unat k) x \<longrightarrow> local_mem w' x = local_mem (world st) x)"
      unfolding copies_transferred_def
      by (metis (mono_tags, lifting) case_prod_conv)
    with k w' count True bp show ?thesis by (simp add: read_target_def)
  qed
qed

text \<open>
  Bypass mode, four bytes read from address 32 of target 7 into \<open>4096 - 2\<close>: the call
  returns true, the byte at 4095 is the target's byte at 33, and the byte at 4098, just
  after the range, is untouched.
\<close>

theorem success_overwrites_destination_witness:
  "copies_transferred (copy_transport 0 (0 :: 64 word))
   \<and> copies_transferred (RWVM (copy_bypass 7 0 (100 :: 64 word)))
   \<and> fst (ReadRemoteMemory (copy_transport 0 0) True (Some (copy_bypass 7 0 100))
            16 32 4096 (- 2) 4 mem0)
   \<and> local_mem (world (snd (ReadRemoteMemory (copy_transport 0 0) True
            (Some (copy_bypass 7 0 100)) 16 32 4096 (- 2) 4 mem0))) 4095 = 40
   \<and> local_mem (world (snd (ReadRemoteMemory (copy_transport 0 0) True
            (Some (copy_bypass 7 0 100)) 16 32 4096 (- 2) 4 mem0))) 4098 = 0"
proof -
  let ?bp = "copy_bypass 7 0 (100 :: 64 word)"
  let ?r = "ReadRemoteMemory (copy_transport 0 0) True (Some ?bp) 16 32 4096 (- 2) 4 mem0"
  have h1: "copies_transferred (copy_transport 0 (0 :: 64 word))"
    by (rule copy_transport_copies)
  have h2: "copies_transferred (RWVM ?bp)"
    by (simp add: copy_bypass_def copy_transport_copies)
  then have h2': "\<forall>bp. Some ?bp = Some bp \<longrightarrow> copies_transferred (RWVM bp)"
    by simp
  have t: "fst ?r"
    by (simp add: ReadRemoteMemory_bypass copy_bypass_def copy_transport_def Let_def)
  then have h3: "?r = (True, snd ?r)"
    by (cases ?r) simp
  from success_overwrites_destination [OF h1 h2' h3]
  obtain tgt where tgt: "read_target True (Some ?bp) (16 :: 64 word) = Some tgt"
    and copied: "\<forall>i<unat (scast (4 :: 32 word) :: 64 word).
        local_mem (world (snd ?r)) (4096 + scast (- 2 :: 32 word) + of_nat i)
          = remote_mem (world mem0) tgt (32 + of_nat i)"
    and frame: "\<forall>x. \<not> in_range (4096 + scast (- 2 :: 32 word)) (unat (scast (4 :: 32 word) :: 64 word)) x
        \<longrightarrow> local_mem (world (snd ?r)) x = local_mem (world mem0) x"
    by blast
  from tgt have tgt7: "tgt = 7" by (simp add: read_target_def copy_bypass_def)
  have "local_mem (world (snd ?r)) (4096 + scast (- 2 :: 32 word) + of_nat 1)
          = remote_mem (world mem0) tgt (32 + of_nat 1)"
    using copied by (simp del: of_nat_1 One_nat_def)
  then have a: "local_mem (world (snd ?r)) 4095 = 40"
    by (simp add: tgt7 mem0_def)
  have "\<not> in_range (4096 + scast (- 2 :: 32 word)) (unat (scast (4 :: 32 word) :: 64 word))
          (4098 :: 64 word)"
    by (simp add: in_range_def)
  with frame have "local_mem (world (snd ?r)) 4098 = local_mem (world mem0) 4098"
    by blast
  then have b: "local_mem (world (snd ?r)) 4098 = 0"
    by (simp add: mem0_def)
  from h1 h2 t a b show ?thesis by blast
qed

section \<open>The destination passed to the transport\<close>

text \<open>
  C6. For every offset, zero, positive or negative, each transport call made receives the
  destination \<open>buffer + offset\<close>, where the sum is taken on machine words: as an integer it
  is the sum of the buffer address and the signed offset modulo \<open>2 ^ w\<close>, with no check
  for overflow.
\<close>

theorem transport_receives_buffer_plus_offset:
  fixes buffer :: "'w::len word"
  shows "\<forall>c \<in> set (invoked st
             (snd (ReadRemoteMemory RPM UseKernal ByPass handle address buffer offset size' st))).
           destination c = buffer + scast offset
           \<and> uint (destination c) = (uint buffer + sint offset) mod 2 ^ LENGTH('w)"
proof (cases UseKernal)
  case False
  then show ?thesis
    by (simp add: ReadRemoteMemory_direct invoked_def uint_plus_scast split: prod.splits)
next
  case True
  show ?thesis
  proof (cases ByPass)
    case None
    with True show ?thesis by (simp add: ReadRemoteMemory_def invoked_def)
  next
    case (Some bp)
    with True show ?thesis
      by (simp add: ReadRemoteMemory_bypass invoked_def uint_plus_scast split: prod.splits)
  qed
qed

text \<open>
  On 64 bits, buffer 4 and offset \<open>-8\<close>: the transport is called with the destination
  \<open>2 ^ 64 - 4\<close>.
\<close>

theorem transport_receives_buffer_plus_offset_witness:
  "DirectCall 1 2 18446744073709551612 16
     \<in> set (invoked st0 (snd (ReadRemoteMemory (stub_transport 1 16) False None
                                 1 2 4 (- 8) 16 st0)))
   \<and> destination (DirectCall 1 2 18446744073709551612 16 :: 64 word call)
       = 4 + scast (- 8 :: 32 word)
   \<and> uint (destination (DirectCall 1 2 18446744073709551612 16 :: 64 word call))
       = (uint (4 :: 64 word) + sint (- 8 :: 32 word)) mod 2 ^ LENGTH(64)"
proof -
  have m: "DirectCall 1 2 18446744073709551612 16
     \<in> set (invoked st0 (snd (ReadRemoteMemory (stub_transport 1 16) False None
                                 1 2 4 (- 8) 16 st0)))"
    by (simp add: ReadRemoteMemory_direct invoked_def stub_transport_def st0_def)
  show ?thesis
    using m transport_receives_buffer_plus_offset [of st0 "stub_transport 1 16" False None
        1 2 4 "- 8" 16]
    by blast
qed

section \<open>Totality\<close>

text \<open>
  C7. The function has no raising path: on every input, and whatever the transport
  answers, it returns a boolean and a state. The boolean is true exactly when the success
  condition of the mode in force holds, and false on every other path: a failed or short
  direct read, a non-zero status of any value, a short bypass read, a null \<open>ByPass\<close> in
  bypass mode.
\<close>

theorem returns_false_unless_success:
  "\<exists>b st'. ReadRemoteMemory RPM UseKernal ByPass handle address buffer offset size' st = (b, st')
     \<and> (b \<longleftrightarrow>
          (if \<not> UseKernal then
             (case RPM handle address (buffer + scast offset) (scast size') 0 (world st) of
                (ok, n, w') \<Rightarrow> ok \<noteq> 0 \<and> n = scast size')
           else
             (case ByPass of
                None \<Rightarrow> False
              | Some bp \<Rightarrow>
                  (case RWVM bp (m_hTarget bp) address (buffer + scast offset) (scast size') 0
                          (world st) of
                     (status, n, w') \<Rightarrow> status = 0 \<and> n = scast size'))))"
proof (cases UseKernal)
  case False
  then show ?thesis
    by (auto simp: ReadRemoteMemory_direct split: prod.splits)
next
  case True
  show ?thesis
  proof (cases ByPass)
    case None
    with True show ?thesis by (auto simp: ReadRemoteMemory_def)
  next
    case (Some bp)
    with True show ?thesis
      by (auto simp: ReadRemoteMemory_bypass split: prod.splits)
  qed
qed

text \<open>
  Bypass mode, status 259 (not zero, not an error code either) with the full count: the
  call returns false.
\<close>

theorem returns_false_unless_success_witness:
  "\<exists>b st'. ReadRemoteMemory (stub_transport 1 32) True (Some (stub_bypass 7 259 32))
              1 2 3 0 32 st0 = (b, st') \<and> \<not> b"
  using returns_false_unless_success [of "stub_transport 1 32" True
      "Some (stub_bypass 7 259 32)" 1 2 3 0 32 st0]
  by (simp add: stub_bypass_def stub_transport_def)

section \<open>The comparison of the byte count\<close>

text \<open>
  C8. In both branches the 32-bit signed \<open>size\<close> is converted to the unsigned
  platform-sized type before it is compared with the transferred count: the counts are
  equal exactly when the transferred count, read as an unsigned integer, is the signed
  value of \<open>size\<close> reduced modulo \<open>2 ^ w\<close>.
\<close>

theorem count_compared_as_unsigned_word:
  fixes RPM :: "('w::len, 's) read_process_memory"
  assumes "RPM handle address (buffer + scast offset) (scast size') 0 (world st) = (ok, n, w')"
    and "RWVM bp (m_hTarget bp) address (buffer + scast offset) (scast size') 0 (world st)
           = (status, m, w'')"
  shows "(fst (ReadRemoteMemory RPM False ByPass handle address buffer offset size' st)
            \<longleftrightarrow> ok \<noteq> 0 \<and> uint n = sint size' mod 2 ^ LENGTH('w))
         \<and> (fst (ReadRemoteMemory RPM True (Some bp) handle address buffer offset size' st)
            \<longleftrightarrow> status = 0 \<and> uint m = sint size' mod 2 ^ LENGTH('w))"
proof -
  have "scast size' = n \<longleftrightarrow> uint n = sint size' mod 2 ^ LENGTH('w)"
    and "scast size' = m \<longleftrightarrow> uint m = sint size' mod 2 ^ LENGTH('w)"
    by (rule scast_eq_iff)+
  with assms show ?thesis
    by (simp add: ReadRemoteMemory_direct ReadRemoteMemory_bypass)
qed

text \<open>
  On 64 bits with \<open>size = -1\<close>: a transferred count of \<open>2 ^ 64 - 1\<close> compares equal (the
  direct call returns true), a transferred count of \<open>2 ^ 32 - 1\<close> does not (the bypass call
  returns false).
\<close>

theorem count_compared_as_unsigned_word_witness:
  "stub_transport 1 18446744073709551615 (1 :: 64 word) 2 (3 + scast (0 :: 32 word))
       (scast (- 1 :: 32 word)) 0 (world st0) = (1, 18446744073709551615, ())
   \<and> RWVM (stub_bypass 7 0 4294967295) (m_hTarget (stub_bypass 7 0 (4294967295 :: 64 word)))
       2 (3 + scast (0 :: 32 word)) (scast (- 1 :: 32 word)) 0 (world st0)
       = (0, 4294967295, ())
   \<and> fst (ReadRemoteMemory (stub_transport 1 18446744073709551615) False
            (Some (stub_bypass 7 0 4294967295)) 1 2 3 0 (- 1) st0)
   \<and> \<not> fst (ReadRemoteMemory (stub_transport 1 18446744073709551615) True
            (Some (stub_bypass 7 0 4294967295)) 1 2 3 0 (- 1) st0)"
proof -
  have h1: "stub_transport 1 18446744073709551615 (1 :: 64 word) 2 (3 + scast (0 :: 32 word))
       (scast (- 1 :: 32 word)) 0 (world st0) = (1, 18446744073709551615, ())"
    by (simp add: stub_transport_def)
  have h2: "RWVM (stub_bypass 7 0 4294967295)
       (m_hTarget (stub_bypass 7 0 (4294967295 :: 64 word)))
       2 (3 + scast (0 :: 32 word)) (scast (- 1 :: 32 word)) 0 (world st0)
       = (0, 4294967295, ())"
    by (simp add: stub_bypass_def stub_transport_def)
  show ?thesis
    using h1 h2
      count_compared_as_unsigned_word [where RPM = "stub_transport 1 18446744073709551615"
        and handle = 1 and address = 2 and buffer = 3 and offset = 0 and size' = "- 1"
        and st = st0 and bp = "stub_bypass 7 0 4294967295"
        and ByPass = "Some (stub_bypass 7 0 4294967295)", OF h1 h2]
    by simp
qed

section \<open>Arguments that a branch does not use\<close>

text \<open>
  C9. In bypass mode the one call made is \<open>RWVM\<close> with the bypass object's own
  \<open>m_hTarget\<close>, the address, \<open>buffer + offset\<close> and the size; the \<open>handle\<close> argument is not
  passed to it and has no influence on the result, the world or the calls made.
\<close>

theorem bypass_keyed_by_own_target:
  "invoked st (snd (ReadRemoteMemory RPM True (Some bp) handle address buffer offset size' st))
     = [BypassCall (m_hTarget bp) address (buffer + scast offset) (scast size')]
   \<and> ReadRemoteMemory RPM True (Some bp) handle address buffer offset size' st
     = ReadRemoteMemory RPM True (Some bp) handle' address buffer offset size' st"
  by (simp add: ReadRemoteMemory_bypass invoked_def split: prod.splits)

text \<open>
  C10. In direct mode \<open>ByPass\<close> is not read: two calls that differ only in \<open>ByPass\<close> (null
  or not) return the same boolean and the same state, hence the same destination bytes
  and the same calls.
\<close>

theorem direct_ignores_bypass_reference:
  "ReadRemoteMemory RPM False ByPass handle address buffer offset size' st
     = ReadRemoteMemory RPM False ByPass' handle address buffer offset size' st
   \<and> ReadRemoteMemory RPM False ByPass handle address buffer offset size' st
     = ReadRemoteMemory RPM False None handle address buffer offset size' st"
  by (simp add: ReadRemoteMemory_def)

end
